theory Spec2Isabelle
  imports Main "HOL-Library.Word"
begin

unbundle bit_operations_syntax

section \<open>Windowed reductions of \<open>jax/_src/lax/windowed_reductions.py\<close>\<close>

text \<open>
  The Python exceptions the module raises (or that the operations it calls raise) are
  values: every function that can raise returns \<open>py_error + 'a\<close>, \<open>Inl\<close> the error.
\<close>

datatype py_error =
    TypeError | ValueError | NotImplementedError | AssertionError
  | ZeroDivisionError | StopIteration | IndexError

subsection \<open>Shape arithmetic\<close>

text \<open>
  Modelled from the spec: \<open>lax._dilate_shape\<close> is not in src. Section 4.1:
  dilating by \<open>d\<close> inserts \<open>d - 1\<close> gaps between elements,
  \<open>dilated(n, d) = 1 + (n - 1) * d\<close> for \<open>n > 0\<close>, else \<open>0\<close>. The sequences are
  zipped with the length check of \<open>util.safe_zip\<close>.
\<close>

definition dilate_dim :: "int \<Rightarrow> int \<Rightarrow> int" where
  "dilate_dim n d = (if 0 < n then 1 + (n - 1) * d else 0)"

definition dilate_shape :: "int list \<Rightarrow> int list \<Rightarrow> py_error + int list" where
  "dilate_shape s dilation =
     (if length s \<noteq> length dilation then Inl TypeError
      else Inr (map2 dilate_dim s dilation))"

text \<open>\<open>util.unzip2\<close>: a sequence of pairs as a pair of sequences.\<close>

definition unzip2 :: "('a \<times> 'b) list \<Rightarrow> 'a list \<times> 'b list" where
  "unzip2 xys = (map fst xys, map snd xys)"

text \<open>
  Modelled from the spec: \<open>core.sum_shapes\<close> is not in src. Section 4.1, step 3: the
  padding lo and hi are added per dimension to the operand extents.
\<close>

definition sum_shapes :: "int list \<Rightarrow> int list \<Rightarrow> int list \<Rightarrow> py_error + int list" where
  "sum_shapes s lo hi =
     (if length s \<noteq> length lo \<or> length s \<noteq> length hi then Inl TypeError
      else Inr (map (\<lambda>(d, l, h). d + l + h) (zip s (zip lo hi))))"

text \<open>
  Modelled from the spec: \<open>core.stride_shape\<close> is not in src. Section 4.1, step 4:
  \<open>floor((padded_extent - dilated_window_extent) / stride) + 1\<close>, where a window
  extent larger than the padded extent yields an error rather than a negative size.
  Python's \<open>//\<close> rounds towards minus infinity, as \<open>div\<close> on \<open>int\<close> does, and raises
  on a zero divisor.
\<close>

definition stride_dim :: "int \<Rightarrow> int \<Rightarrow> int \<Rightarrow> py_error + int" where
  "stride_dim d window_size window_stride =
     (if window_stride = 0 then Inl ZeroDivisionError
      else if d < window_size then Inl TypeError
      else Inr ((d - window_size) div window_stride + 1))"

fun stride_shape :: "int list \<Rightarrow> int list \<Rightarrow> int list \<Rightarrow> py_error + int list" where
  "stride_shape [] [] [] = Inr []"
| "stride_shape (d # ds) (w # ws) (s # ss) =
     (case stride_dim d w s of
        Inl e \<Rightarrow> Inl e
      | Inr x \<Rightarrow> (case stride_shape ds ws ss of Inl e \<Rightarrow> Inl e | Inr xs \<Rightarrow> Inr (x # xs)))"
| "stride_shape _ _ _ = Inl TypeError"

text \<open>
  \<open>reduce_window_shape_tuple\<close> (lines 414-423). The two dilations default to
  \<open>None\<close>, which skips the dilation step.
\<close>

definition reduce_window_shape_tuple ::
  "int list \<Rightarrow> int list \<Rightarrow> int list \<Rightarrow> (int \<times> int) list \<Rightarrow>
   int list option \<Rightarrow> int list option \<Rightarrow> py_error + int list" where
  "reduce_window_shape_tuple operand_shape window_dimensions window_strides padding
      base_dilation window_dilation =
     (case (case base_dilation of None \<Rightarrow> Inr operand_shape
            | Some bd \<Rightarrow> dilate_shape operand_shape bd) of
        Inl e \<Rightarrow> Inl e
      | Inr operand_shape' \<Rightarrow>
     (case (case window_dilation of None \<Rightarrow> Inr window_dimensions
            | Some wd \<Rightarrow> dilate_shape window_dimensions wd) of
        Inl e \<Rightarrow> Inl e
      | Inr window_dimensions' \<Rightarrow>
     (case unzip2 padding of (pads_lo, pads_hi) \<Rightarrow>
     (case sum_shapes operand_shape' pads_lo pads_hi of
        Inl e \<Rightarrow> Inl e
      | Inr operand_padded \<Rightarrow>
          stride_shape operand_padded window_dimensions' window_strides))))"

subsection \<open>The wide-word packing of \<open>_select_and_gather_add_lowering\<close>\<close>

text \<open>
  Lines 652-686. A scalar of the floating-point dtype is its bit pattern, a word of
  \<open>nbits\<close> bits: \<open>BitcastConvertOp\<close> to the unsigned type of the same width keeps
  the pattern. \<open>ConvertOp\<close> between unsigned integer types is \<open>ucast\<close> (zero extension
  to the double word, truncation back to the word), \<open>ShiftLeftOp\<close> is \<open>push_bit\<close>
  and \<open>ShiftRightLogicalOp\<close> is \<open>drop_bit\<close>.
\<close>

definition double_word_reduction :: "nat \<Rightarrow> nat \<Rightarrow> bool" where
  "double_word_reduction nbits max_bits = (nbits * 2 \<le> max_bits)"

definition pack :: "nat \<Rightarrow> 'a::len word \<Rightarrow> 'a word \<Rightarrow> 'b::len word" where
  "pack nbits a b = push_bit nbits (ucast a) OR ucast b"

definition fst_w :: "nat \<Rightarrow> 'b::len word \<Rightarrow> 'a::len word" where
  "fst_w nbits t = ucast (drop_bit nbits t)"

definition snd_w :: "'b::len word \<Rightarrow> 'a::len word" where
  "snd_w t = ucast t"

subsection \<open>Arrays, traced values and the primitives\<close>

text \<open>
  An array has a dtype, a shape and its elements in row-major order. A value the module
  handles is either a concrete array or a tracer: a staged value that knows its abstract
  value (dtype and shape) and the primitive application (\<open>bind\<close>) that produced it.
  Each primitive of the module is a constructor of \<open>eqn\<close>, with the operands and the
  keyword parameters of its \<open>bind\<close>; \<open>reduce_window_p\<close> has several results, and its
  first field says which one the tracer is.
\<close>

record ('d, 'a) ndarray =
  dtype :: 'd
  shape :: "int list"
  data :: "'a list"

text \<open>The select primitive is a \<open>core.Primitive\<close>; only \<open>ge_p\<close> and \<open>le_p\<close> are accepted.\<close>

datatype select_prim = ge_p | le_p | other_prim

text \<open>Nested argument structures (\<open>tree_util\<close>): leaves in tuples.\<close>

datatype 'x pytree = Leaf 'x | Tuple "'x pytree list"

fun tree_leaves :: "'x pytree \<Rightarrow> 'x list" where
  "tree_leaves (Leaf x) = [x]"
| "tree_leaves (Tuple ts) = concat (map tree_leaves ts)"

definition tree_structure :: "'x pytree \<Rightarrow> unit pytree" where
  "tree_structure t = map_pytree (\<lambda>_. ()) t"

fun unflatten :: "unit pytree \<Rightarrow> 'x list \<Rightarrow> ('x pytree \<times> 'x list) option"
  and unflatten_list ::
    "unit pytree list \<Rightarrow> 'x list \<Rightarrow> ('x pytree list \<times> 'x list) option" where
  "unflatten (Leaf _) [] = None"
| "unflatten (Leaf _) (x # xs) = Some (Leaf x, xs)"
| "unflatten (Tuple ts) xs =
     (case unflatten_list ts xs of None \<Rightarrow> None | Some (ts', r) \<Rightarrow> Some (Tuple ts', r))"
| "unflatten_list [] xs = Some ([], xs)"
| "unflatten_list (t # ts) xs =
     (case unflatten t xs of None \<Rightarrow> None
      | Some (t', r) \<Rightarrow>
          (case unflatten_list ts r of None \<Rightarrow> None
           | Some (ts', r') \<Rightarrow> Some (t' # ts', r')))"

definition tree_unflatten :: "unit pytree \<Rightarrow> 'x list \<Rightarrow> py_error + 'x pytree" where
  "tree_unflatten treedef leaves =
     (case unflatten treedef leaves of
        Some (t, []) \<Rightarrow> Inr t
      | _ \<Rightarrow> Inl ValueError)"

text \<open>
  A combining function is one of the three functions the module compares with by
  identity (\<open>monoid_op is lax.add\<close>), or any other Python function, given by the tree
  structure of what it returns and by what it computes on the flattened scalars of
  its two arguments.
\<close>

datatype 'a callable =
    lax_add | lax_max | lax_min
  | py_function "unit pytree" "'a list \<Rightarrow> 'a list \<Rightarrow> 'a list"

datatype ('d, 'a) jexpr =
    Concrete "('d, 'a) ndarray"
  | Tracer 'd "int list" "('d, 'a) eqn"
and ('d, 'a) eqn =
    Input
  | pad_p "('d, 'a) jexpr" 'a "(int \<times> int \<times> int) list"
  | slice_p "('d, 'a) jexpr" "int list" "int list" "int list option"
  | reduce_window_sum_p "('d, 'a) jexpr" "int list" "int list" "(int \<times> int) list"
      "int list" "int list"
  | reduce_window_max_p "('d, 'a) jexpr" "int list" "int list" "(int \<times> int) list"
      "int list" "int list"
  | reduce_window_min_p "('d, 'a) jexpr" "int list" "int list" "(int \<times> int) list"
      "int list" "int list"
  | select_and_scatter_add_p "('d, 'a) jexpr" "('d, 'a) jexpr" select_prim
      "int list" "int list" "(int \<times> int) list"
  | select_and_gather_add_p "('d, 'a) jexpr" "('d, 'a) jexpr" select_prim
      "int list" "int list" "(int \<times> int) list" "int list" "int list"
  | reduce_window_p nat "('d, 'a) jexpr list" "('d, 'a) jexpr list" "'a callable"
      "int list" "int list" "(int \<times> int) list" "int list" "int list"
  | bdim_at_front_p "('d, 'a) jexpr" "nat option" int

fun dtype_of :: "('d, 'a) jexpr \<Rightarrow> 'd" where
  "dtype_of (Concrete a) = dtype a"
| "dtype_of (Tracer d s _) = d"

fun shape_of :: "('d, 'a) jexpr \<Rightarrow> int list" where
  "shape_of (Concrete a) = shape a"
| "shape_of (Tracer d s _) = s"

text \<open>
  \<open>core.get_aval\<close>: a concrete array has a \<open>ConcreteArray\<close> abstract value, which
  holds the value; a tracer has its shaped abstract value only.
\<close>

datatype ('d, 'a) aval = ConcreteArray 'd "int list" "'a list" | ShapedArray 'd "int list"

fun get_aval :: "('d, 'a) jexpr \<Rightarrow> ('d, 'a) aval" where
  "get_aval (Concrete a) = ConcreteArray (dtype a) (shape a) (data a)"
| "get_aval (Tracer d s _) = ShapedArray d s"

text \<open>
  What the module takes from the dtype machinery and from its sibling modules, none of
  it in src: NumPy's \<open>==\<close> on two scalars of a dtype, the scalar \<open>0\<close> of a dtype
  (\<open>lax._zero\<close>, \<open>full_like_aval(0, ...)\<close>), \<open>lax._get_max_identity\<close>,
  \<open>lax._get_min_identity\<close>, \<open>np.array(-np.inf, dtype)\<close> and \<open>np.array(np.inf, dtype)\<close>,
  \<open>dtypes.issubdtype(dtype, np.number)\<close>, the scalar operations \<open>mhlo.AddOp\<close>,
  \<open>mlir.max_mhlo\<close> and \<open>mlir.min_mhlo\<close> (to which \<open>lax.add\<close>, \<open>lax.max\<close> and
  \<open>lax.min\<close> lower), the comparisons of \<open>ge_p\<close> and \<open>le_p\<close>,
  \<open>lax.padtype_to_pads\<close> and \<open>convolution._conv_general_vjp_lhs_padding\<close>. They
  are parameters of the model.
\<close>

record ('d, 'a) lax_env =
  val_eq :: "'a \<Rightarrow> 'a \<Rightarrow> bool"
  const_zero :: "'d \<Rightarrow> 'a"
  get_max_identity :: "'d \<Rightarrow> 'a"
  get_min_identity :: "'d \<Rightarrow> 'a"
  neg_inf :: "'d \<Rightarrow> 'a"
  pos_inf :: "'d \<Rightarrow> 'a"
  is_number :: "'d \<Rightarrow> bool"
  add_op :: "'a \<Rightarrow> 'a \<Rightarrow> 'a"
  max_op :: "'a \<Rightarrow> 'a \<Rightarrow> 'a"
  min_op :: "'a \<Rightarrow> 'a \<Rightarrow> 'a"
  ge_op :: "'a \<Rightarrow> 'a \<Rightarrow> bool"
  le_op :: "'a \<Rightarrow> 'a \<Rightarrow> bool"
  padtype_to_pads ::
    "int list \<Rightarrow> int list \<Rightarrow> int list \<Rightarrow> string \<Rightarrow> py_error + (int \<times> int) list"
  conv_general_vjp_lhs_padding ::
    "int list \<Rightarrow> int list \<Rightarrow> int list \<Rightarrow> int list \<Rightarrow> (int \<times> int) list \<Rightarrow>
     int list \<Rightarrow> int list \<Rightarrow> (int \<times> int) list"

subsection \<open>Shape rules\<close>

text \<open>A sequence of checks raises the error of the first one that fails.\<close>

fun first_error :: "(py_error + unit) list \<Rightarrow> py_error + unit" where
  "first_error [] = Inr ()"
| "first_error (Inl e # _) = Inl e"
| "first_error (Inr _ # cs) = first_error cs"

definition raise_if :: "bool \<Rightarrow> py_error \<Rightarrow> py_error + unit" where
  "raise_if c e = (if c then Inl e else Inr ())"

text \<open>
  Modelled from the spec: \<open>lax._check_shapelike\<close> is not in src. Section 4.1: a
  validation error (TypeError) when a window or stride entry is not positive
  (\<open>non_zero_shape\<close>); a shape has no negative entry.
\<close>

definition check_shapelike :: "bool \<Rightarrow> int list \<Rightarrow> py_error + unit" where
  "check_shapelike non_zero_shape obj =
     raise_if (list_ex (\<lambda>d. d < (if non_zero_shape then 1 else 0)) obj) TypeError"

text \<open>\<open>_common_reduce_window_shape_rule\<close> (lines 383-412), on the operand's shape.\<close>

definition common_reduce_window_shape_rule ::
  "int list \<Rightarrow> int list \<Rightarrow> int list \<Rightarrow> (int \<times> int) list \<Rightarrow> int list \<Rightarrow> int list \<Rightarrow>
   py_error + int list" where
  "common_reduce_window_shape_rule operand_shape window_dimensions window_strides padding
      base_dilation window_dilation =
     (case first_error
        [check_shapelike True window_dimensions,
         check_shapelike True window_strides,
         check_shapelike False base_dilation,
         check_shapelike False window_dilation,
         raise_if (length operand_shape \<noteq> length window_dimensions) TypeError,
         raise_if (length window_strides \<noteq> length window_dimensions) TypeError,
         raise_if (length base_dilation \<noteq> length window_dimensions) TypeError,
         raise_if (length window_dilation \<noteq> length window_dimensions) TypeError] of
        Inl e \<Rightarrow> Inl e
      | Inr _ \<Rightarrow>
          reduce_window_shape_tuple operand_shape window_dimensions window_strides padding
            (Some base_dilation) (Some window_dilation))"

text \<open>\<open>_reduce_window_sum_shape_rule\<close> (lines 321-328).\<close>

definition reduce_window_sum_shape_rule ::
  "('d, 'a) lax_env \<Rightarrow> 'd \<Rightarrow> int list \<Rightarrow> int list \<Rightarrow> int list \<Rightarrow> (int \<times> int) list \<Rightarrow>
   int list \<Rightarrow> int list \<Rightarrow> py_error + int list" where
  "reduce_window_sum_shape_rule env operand_dtype operand_shape window_dimensions
      window_strides padding base_dilation window_dilation =
     (if \<not> is_number env operand_dtype then Inl TypeError
      else common_reduce_window_shape_rule operand_shape window_dimensions window_strides
             padding base_dilation window_dilation)"

text \<open>
  \<open>_select_and_gather_add_shape_rule\<close> (lines 622-631) and
  \<open>_select_and_scatter_add_shape_rule\<close> (lines 525-528).
\<close>

definition select_and_gather_add_shape_rule ::
  "int list \<Rightarrow> int list \<Rightarrow> int list \<Rightarrow> int list \<Rightarrow> (int \<times> int) list \<Rightarrow> int list \<Rightarrow>
   int list \<Rightarrow> py_error + int list" where
  "select_and_gather_add_shape_rule tangents_shape operand_shape window_dimensions
      window_strides padding base_dilation window_dilation =
     (if tangents_shape \<noteq> operand_shape then Inl TypeError
      else common_reduce_window_shape_rule operand_shape window_dimensions window_strides
             padding base_dilation window_dilation)"

definition select_and_scatter_add_shape_rule :: "int list \<Rightarrow> int list \<Rightarrow> int list" where
  "select_and_scatter_add_shape_rule source_shape operand_shape = operand_shape"

text \<open>
  Modelled from the spec: the shape rule of \<open>lax.pad\<close> is not in src. A padding
  config entry is \<open>(lo, hi, interior)\<close>: \<open>interior\<close> gaps between neighbouring
  elements (a dilation by \<open>interior + 1\<close>, section 4.1), \<open>lo\<close> and \<open>hi\<close> added at the
  two ends (negative to crop); the interior padding is not negative and no extent
  ends up negative.
\<close>

definition pad_shape_rule ::
  "int list \<Rightarrow> (int \<times> int \<times> int) list \<Rightarrow> py_error + int list" where
  "pad_shape_rule operand_shape padding_config =
     (if length padding_config \<noteq> length operand_shape then Inl ValueError
      else if list_ex (\<lambda>(lo, hi, i). i < 0) padding_config then Inl ValueError
      else (let result = map (\<lambda>((lo, hi, i), d). lo + hi + dilate_dim d (i + 1))
                           (zip padding_config operand_shape)
            in if list_ex (\<lambda>d. d < 0) result then Inl ValueError else Inr result))"

text \<open>
  Modelled from the spec: the shape rule of \<open>slicing.slice\<close> is not in src. The slice
  keeps, per dimension, the indices \<open>start, start + stride, ...\<close> below \<open>limit\<close>;
  the bounds lie within the operand and the strides are positive.
\<close>

definition slice_shape_rule ::
  "int list \<Rightarrow> int list \<Rightarrow> int list \<Rightarrow> int list option \<Rightarrow> py_error + int list" where
  "slice_shape_rule operand_shape start_indices limit_indices strides =
     (if length start_indices \<noteq> length operand_shape
         \<or> length limit_indices \<noteq> length operand_shape then Inl TypeError
      else if \<not> list_all2 (\<le>) limit_indices operand_shape then Inl TypeError
      else if list_ex (\<lambda>i. i < 0) start_indices then Inl TypeError
      else if \<not> list_all2 (\<le>) start_indices limit_indices then Inl TypeError
      else (case strides of
              None \<Rightarrow> Inr (map (\<lambda>(l, s). l - s) (zip limit_indices start_indices))
            | Some st \<Rightarrow>
                if length st \<noteq> length operand_shape then Inl TypeError
                else if list_ex (\<lambda>k. k \<le> 0) st then Inl TypeError
                else Inr (map (\<lambda>(l, s, k). (l - s + k - 1) div k)
                           (zip limit_indices (zip start_indices st)))))"

subsection \<open>Binding the primitives\<close>

text \<open>
  \<open>bind\<close> runs the primitive's shape rule, which may raise, and gives a tracer with
  the dtype of the first operand (\<open>lax._input_dtype\<close>) and the shape the rule
  returns. \<open>lax.pad\<close> and \<open>slicing.slice\<close> bind \<open>pad_p\<close> and \<open>slice_p\<close>.
\<close>

definition pad ::
  "('d, 'a) jexpr \<Rightarrow> 'a \<Rightarrow> (int \<times> int \<times> int) list \<Rightarrow> py_error + ('d, 'a) jexpr" where
  "pad operand padding_value padding_config =
     (case pad_shape_rule (shape_of operand) padding_config of
        Inl e \<Rightarrow> Inl e
      | Inr s \<Rightarrow> Inr (Tracer (dtype_of operand) s (pad_p operand padding_value padding_config)))"

definition slice ::
  "('d, 'a) jexpr \<Rightarrow> int list \<Rightarrow> int list \<Rightarrow> int list option \<Rightarrow> py_error + ('d, 'a) jexpr" where
  "slice operand start_indices limit_indices strides =
     (case slice_shape_rule (shape_of operand) start_indices limit_indices strides of
        Inl e \<Rightarrow> Inl e
      | Inr s \<Rightarrow>
          Inr (Tracer (dtype_of operand) s (slice_p operand start_indices limit_indices strides)))"

text \<open>
  \<open>_reduce_window_sum\<close>, \<open>_reduce_window_max\<close> and \<open>_reduce_window_min\<close> (lines
  114-176): a dilation that is \<open>None\<close> is all ones.
\<close>

definition default_dilation :: "int list \<Rightarrow> int list option \<Rightarrow> int list" where
  "default_dilation window_dimensions dilation =
     (case dilation of None \<Rightarrow> replicate (length window_dimensions) 1 | Some d \<Rightarrow> d)"

definition reduce_window_sum ::
  "('d, 'a) lax_env \<Rightarrow> ('d, 'a) jexpr \<Rightarrow> int list \<Rightarrow> int list \<Rightarrow> (int \<times> int) list \<Rightarrow>
   int list option \<Rightarrow> int list option \<Rightarrow> py_error + ('d, 'a) jexpr" where
  "reduce_window_sum env operand window_dimensions window_strides padding base_dilation
      window_dilation =
     (let bd = default_dilation window_dimensions base_dilation;
          wd = default_dilation window_dimensions window_dilation
      in case reduce_window_sum_shape_rule env (dtype_of operand) (shape_of operand)
                window_dimensions window_strides padding bd wd of
           Inl e \<Rightarrow> Inl e
         | Inr s \<Rightarrow>
             Inr (Tracer (dtype_of operand) s
                   (reduce_window_sum_p operand window_dimensions window_strides padding bd wd)))"

definition reduce_window_max ::
  "('d, 'a) jexpr \<Rightarrow> int list \<Rightarrow> int list \<Rightarrow> (int \<times> int) list \<Rightarrow>
   int list option \<Rightarrow> int list option \<Rightarrow> py_error + ('d, 'a) jexpr" where
  "reduce_window_max operand window_dimensions window_strides padding base_dilation
      window_dilation =
     (let bd = default_dilation window_dimensions base_dilation;
          wd = default_dilation window_dimensions window_dilation
      in case common_reduce_window_shape_rule (shape_of operand)
                window_dimensions window_strides padding bd wd of
           Inl e \<Rightarrow> Inl e
         | Inr s \<Rightarrow>
             Inr (Tracer (dtype_of operand) s
                   (reduce_window_max_p operand window_dimensions window_strides padding bd wd)))"

definition reduce_window_min ::
  "('d, 'a) jexpr \<Rightarrow> int list \<Rightarrow> int list \<Rightarrow> (int \<times> int) list \<Rightarrow>
   int list option \<Rightarrow> int list option \<Rightarrow> py_error + ('d, 'a) jexpr" where
  "reduce_window_min operand window_dimensions window_strides padding base_dilation
      window_dilation =
     (let bd = default_dilation window_dimensions base_dilation;
          wd = default_dilation window_dimensions window_dilation
      in case common_reduce_window_shape_rule (shape_of operand)
                window_dimensions window_strides padding bd wd of
           Inl e \<Rightarrow> Inl e
         | Inr s \<Rightarrow>
             Inr (Tracer (dtype_of operand) s
                   (reduce_window_min_p operand window_dimensions window_strides padding bd wd)))"

text \<open>\<open>_select_and_scatter_add\<close> (lines 193-201): its shape rule does not raise.\<close>

definition select_and_scatter_add ::
  "('d, 'a) jexpr \<Rightarrow> ('d, 'a) jexpr \<Rightarrow> select_prim \<Rightarrow> int list \<Rightarrow> int list \<Rightarrow>
   (int \<times> int) list \<Rightarrow> ('d, 'a) jexpr" where
  "select_and_scatter_add source operand select_prim window_dimensions window_strides padding =
     Tracer (dtype_of source)
       (select_and_scatter_add_shape_rule (shape_of source) (shape_of operand))
       (select_and_scatter_add_p source operand select_prim window_dimensions window_strides
          padding)"

text \<open>\<open>_select_and_gather_add\<close> (lines 203-238).\<close>

definition select_and_gather_add ::
  "('d, 'a) jexpr \<Rightarrow> ('d, 'a) jexpr \<Rightarrow> select_prim \<Rightarrow> int list \<Rightarrow> int list \<Rightarrow>
   (int \<times> int) list \<Rightarrow> int list \<Rightarrow> int list \<Rightarrow> py_error + ('d, 'a) jexpr" where
  "select_and_gather_add tangents operand select_prim window_dimensions window_strides padding
      base_dilation window_dilation =
     (case select_and_gather_add_shape_rule (shape_of tangents) (shape_of operand)
             window_dimensions window_strides padding base_dilation window_dilation of
        Inl e \<Rightarrow> Inl e
      | Inr s \<Rightarrow>
          Inr (Tracer (dtype_of tangents) s
                (select_and_gather_add_p tangents operand select_prim window_dimensions
                   window_strides padding base_dilation window_dilation)))"


subsection \<open>The generic primitive\<close>

text \<open>
  \<open>_reduce_window_abstract_eval_rule\<close> (lines 241-257), on the abstract values
  (dtype and shape) of the operands followed by the init values. \<open>util.split_list\<close>
  cuts the sequence in two; \<open>util.safe_zip\<close> refuses halves of different lengths.
\<close>

definition reduce_window_abstract_eval_rule ::
  "('d \<times> int list) list \<Rightarrow> int list \<Rightarrow> int list \<Rightarrow> (int \<times> int) list \<Rightarrow> int list \<Rightarrow>
   int list \<Rightarrow> py_error + ('d \<times> int list) list" where
  "reduce_window_abstract_eval_rule avals window_dimensions window_strides padding
      base_dilation window_dilation =
     (let operand_avals = take (length avals div 2) avals;
          init_val_avals = drop (length avals div 2) avals
      in if length operand_avals \<noteq> length init_val_avals then Inl AssertionError
         else if list_ex (\<lambda>(opd, iv). fst opd \<noteq> fst iv) (zip operand_avals init_val_avals)
           then Inl TypeError
         else if list_ex (\<lambda>v. length (snd v) \<noteq> 0) init_val_avals then Inl TypeError
         else (case operand_avals of
                 [] \<Rightarrow> Inl IndexError
               | opd # _ \<Rightarrow>
                   (case common_reduce_window_shape_rule (snd opd) window_dimensions
                           window_strides padding base_dilation window_dilation of
                      Inl e \<Rightarrow> Inl e
                    | Inr out_shape \<Rightarrow> Inr (map (\<lambda>opd. (fst opd, out_shape)) operand_avals))))"

text \<open>\<open>reduce_window_p.bind\<close>: one tracer per result of the abstract evaluation.\<close>

definition reduce_window_p_bind ::
  "('d, 'a) jexpr list \<Rightarrow> 'a callable \<Rightarrow> int list \<Rightarrow> int list \<Rightarrow> (int \<times> int) list \<Rightarrow>
   int list \<Rightarrow> int list \<Rightarrow> py_error + ('d, 'a) jexpr list" where
  "reduce_window_p_bind args jaxpr window_dimensions window_strides padding base_dilation
      window_dilation =
     (case reduce_window_abstract_eval_rule (map (\<lambda>x. (dtype_of x, shape_of x)) args)
             window_dimensions window_strides padding base_dilation window_dilation of
        Inl e \<Rightarrow> Inl e
      | Inr avals \<Rightarrow>
          Inr (map (\<lambda>(k, d, s).
                 Tracer d s
                   (reduce_window_p k (take (length args div 2) args)
                      (drop (length args div 2) args) jaxpr window_dimensions window_strides
                      padding base_dilation window_dilation))
               (zip [0..<length avals] avals)))"

text \<open>
  Modelled from the spec: \<open>lax._variadic_reduction_jaxpr\<close> is not in src. It traces
  the combining function on two arguments of the init values' tree structure and
  returns the traced sub-program with the tree structure of its output (section 6);
  \<open>lax.add\<close>, \<open>lax.max\<close> and \<open>lax.min\<close> take single arrays.
\<close>

definition variadic_reduction_jaxpr ::
  "'a callable \<Rightarrow> unit pytree \<Rightarrow> py_error + ('a callable \<times> unit pytree)" where
  "variadic_reduction_jaxpr computation init_value_tree =
     (case computation of
        py_function out_tree f \<Rightarrow> Inr (computation, out_tree)
      | _ \<Rightarrow> if init_value_tree = Leaf () then Inr (computation, Leaf ()) else Inl TypeError)"

subsection \<open>The monoid fast path and \<open>reduce_window\<close>\<close>

text \<open>
  \<open>_get_monoid_window_reducer\<close> (lines 97-112) returns \<open>None\<close>, or the value of
  \<open>aval.val == identity and reducer\<close>: \<open>False\<close> or the reducer. The caller tests its
  truth value.
\<close>

datatype monoid_fn = fn_reduce_window_sum | fn_reduce_window_max | fn_reduce_window_min

datatype 'f py_value = PyNone | PyFalse | PyFunction 'f

fun truthy :: "'f py_value \<Rightarrow> bool" where
  "truthy PyNone = False"
| "truthy PyFalse = False"
| "truthy (PyFunction _) = True"

text \<open>The value of a rank-0 array against a scalar, with NumPy's \<open>==\<close>.\<close>

definition scalar_eq :: "('d, 'a) lax_env \<Rightarrow> 'a list \<Rightarrow> 'a \<Rightarrow> bool" where
  "scalar_eq env v c = (case v of [x] \<Rightarrow> val_eq env x c | _ \<Rightarrow> False)"

definition and_then :: "bool \<Rightarrow> 'f \<Rightarrow> 'f py_value" where
  "and_then b f = (if b then PyFunction f else PyFalse)"

definition get_monoid_window_reducer ::
  "('d, 'a) lax_env \<Rightarrow> 'a callable \<Rightarrow> ('d, 'a) jexpr list \<Rightarrow> monoid_fn py_value" where
  "get_monoid_window_reducer env monoid_op xs =
     (case xs of
        [x] \<Rightarrow>
          (case get_aval x of
             ConcreteArray d s v \<Rightarrow>
               if s = [] then
                 (case monoid_op of
                    lax_add \<Rightarrow> and_then (scalar_eq env v (const_zero env d)) fn_reduce_window_sum
                  | lax_max \<Rightarrow>
                      and_then (scalar_eq env v (get_max_identity env d)) fn_reduce_window_max
                  | lax_min \<Rightarrow>
                      and_then (scalar_eq env v (get_min_identity env d)) fn_reduce_window_min
                  | py_function _ _ \<Rightarrow> PyNone)
               else PyNone
           | ShapedArray _ _ \<Rightarrow> PyNone)
      | _ \<Rightarrow> PyNone)"

text \<open>
  Calling the reducer the fast path found, with the operand as \<open>reduce_window\<close> got
  it: binding a primitive to a tuple is a type error.
\<close>

definition call_monoid_reducer ::
  "('d, 'a) lax_env \<Rightarrow> monoid_fn \<Rightarrow> ('d, 'a) jexpr pytree \<Rightarrow> int list \<Rightarrow> int list \<Rightarrow>
   (int \<times> int) list \<Rightarrow> int list \<Rightarrow> int list \<Rightarrow> py_error + ('d, 'a) jexpr" where
  "call_monoid_reducer env f operand window_dimensions window_strides padding base_dilation
      window_dilation =
     (case operand of
        Leaf x \<Rightarrow>
          (case f of
             fn_reduce_window_sum \<Rightarrow>
               reduce_window_sum env x window_dimensions window_strides padding
                 (Some base_dilation) (Some window_dilation)
           | fn_reduce_window_max \<Rightarrow>
               reduce_window_max x window_dimensions window_strides padding
                 (Some base_dilation) (Some window_dilation)
           | fn_reduce_window_min \<Rightarrow>
               reduce_window_min x window_dimensions window_strides padding
                 (Some base_dilation) (Some window_dilation))
      | Tuple _ \<Rightarrow> Inl TypeError)"

text \<open>The \<open>else\<close> branch of \<open>reduce_window\<close> (lines 82-95): the generic primitive.\<close>

definition reduce_window_generic ::
  "('d, 'a) jexpr pytree \<Rightarrow> ('d, 'a) jexpr pytree \<Rightarrow> 'a callable \<Rightarrow> int list \<Rightarrow> int list \<Rightarrow>
   (int \<times> int) list \<Rightarrow> int list \<Rightarrow> int list \<Rightarrow> py_error + ('d, 'a) jexpr pytree" where
  "reduce_window_generic operand init_value computation window_dimensions window_strides
      padding base_dilation window_dilation =
     (case variadic_reduction_jaxpr computation (tree_structure init_value) of
        Inl e \<Rightarrow> Inl e
      | Inr (jaxpr, out_tree) \<Rightarrow>
          if tree_structure operand \<noteq> out_tree then Inl ValueError
          else (case reduce_window_p_bind (tree_leaves operand @ tree_leaves init_value) jaxpr
                       window_dimensions window_strides padding base_dilation
                       window_dilation of
                  Inl e \<Rightarrow> Inl e
                | Inr out_flat \<Rightarrow> tree_unflatten out_tree out_flat))"

text \<open>The padding argument is a string or a sequence of pairs (lines 65-72).\<close>

datatype padding_arg = PaddingStr string | PaddingSeq "(int \<times> int) list"

definition resolve_padding ::
  "('d, 'a) lax_env \<Rightarrow> ('d, 'a) jexpr list \<Rightarrow> int list \<Rightarrow> int list \<Rightarrow> padding_arg \<Rightarrow>
   int list option \<Rightarrow> py_error + (int \<times> int) list" where
  "resolve_padding env flat_operands window_dimensions window_strides padding window_dilation =
     (case padding of
        PaddingSeq p \<Rightarrow> Inr p
      | PaddingStr name \<Rightarrow>
          (case (case window_dilation of
                   None \<Rightarrow> Inr window_dimensions
                 | Some wd \<Rightarrow> dilate_shape window_dimensions wd) of
             Inl e \<Rightarrow> Inl e
           | Inr dilated_window_dims \<Rightarrow>
               (case flat_operands of
                  [] \<Rightarrow> Inl IndexError
                | x # _ \<Rightarrow>
                    padtype_to_pads env (shape_of x) dilated_window_dims window_strides name)))"

text \<open>\<open>reduce_window\<close> (lines 46-95).\<close>

definition reduce_window ::
  "('d, 'a) lax_env \<Rightarrow> ('d, 'a) jexpr pytree \<Rightarrow> ('d, 'a) jexpr pytree \<Rightarrow> 'a callable \<Rightarrow>
   int list \<Rightarrow> int list \<Rightarrow> padding_arg \<Rightarrow> int list option \<Rightarrow> int list option \<Rightarrow>
   py_error + ('d, 'a) jexpr pytree" where
  "reduce_window env operand init_value computation window_dimensions window_strides padding
      base_dilation window_dilation =
     (let flat_operands = tree_leaves operand;
          flat_init_values = tree_leaves init_value
      in if tree_structure operand \<noteq> tree_structure init_value then Inl ValueError
         else if length flat_operands = 0 then Inl ValueError
         else if length flat_operands \<noteq> length flat_init_values then Inl ValueError
         else (case resolve_padding env flat_operands window_dimensions window_strides
                      padding window_dilation of
                 Inl e \<Rightarrow> Inl e
               | Inr padding' \<Rightarrow>
                   (let bd = default_dilation window_dimensions base_dilation;
                        wd = default_dilation window_dimensions window_dilation
                    in case get_monoid_window_reducer env computation flat_init_values of
                         PyFunction monoid_reducer \<Rightarrow>
                           map_sum id Leaf
                             (call_monoid_reducer env monoid_reducer operand
                                window_dimensions window_strides padding' bd wd)
                       | _ \<Rightarrow>
                           reduce_window_generic operand init_value computation
                             window_dimensions window_strides padding' bd wd)))"

text \<open>
  The selector as section 4.2 words it, to compare with the code's: a specialized
  primitive if and only if there is exactly one init value, it is a concrete rank-0
  scalar, and the combiner is addition with init equal to 0 (sum), max with init
  equal to the max-identity of the dtype (max), or min with init equal to the
  min-identity (min).
\<close>

definition spec_fast_path ::
  "('d, 'a) lax_env \<Rightarrow> 'a callable \<Rightarrow> ('d, 'a) jexpr list \<Rightarrow> monoid_fn option" where
  "spec_fast_path env combiner init_values =
     (case init_values of
        [Concrete a] \<Rightarrow>
          (case (shape a, data a) of
             ([], [v]) \<Rightarrow>
               if combiner = lax_add \<and> val_eq env v (const_zero env (dtype a))
                 then Some fn_reduce_window_sum
               else if combiner = lax_max \<and> val_eq env v (get_max_identity env (dtype a))
                 then Some fn_reduce_window_max
               else if combiner = lax_min \<and> val_eq env v (get_min_identity env (dtype a))
                 then Some fn_reduce_window_min
               else None
           | _ \<Rightarrow> None)
      | _ \<Rightarrow> None)"


subsection \<open>An instance for the examples\<close>

text \<open>
  One dtype, whose scalars are the two infinities, NaN, the negative zero and the
  integer values, with the comparisons and the arithmetic of the floating-point numbers
  on them (an integer value stands for the float of that value, \<open>Fin 0\<close> for the
  positive zero; rounding is left out): the two zeros are equal and not distinguished
  by the order, and the sum of two zeros is the negative zero only when both are. The
  examples evaluate the model on it.
\<close>

datatype np_dtype = float32

datatype scalar = NaN | NegInf | Fin int | NegZero | PosInf

fun scalar_le :: "scalar \<Rightarrow> scalar \<Rightarrow> bool" where
  "scalar_le NaN _ = False"
| "scalar_le _ NaN = False"
| "scalar_le NegInf _ = True"
| "scalar_le _ PosInf = True"
| "scalar_le (Fin a) (Fin b) = (a \<le> b)"
| "scalar_le NegZero (Fin b) = (0 \<le> b)"
| "scalar_le (Fin a) NegZero = (a \<le> 0)"
| "scalar_le NegZero NegZero = True"
| "scalar_le _ _ = False"

definition scalar_equal :: "scalar \<Rightarrow> scalar \<Rightarrow> bool" where
  "scalar_equal a b =
     (a \<noteq> NaN \<and> b \<noteq> NaN
      \<and> (a = b \<or> (a = NegZero \<and> b = Fin 0) \<or> (a = Fin 0 \<and> b = NegZero)))"

fun scalar_add :: "scalar \<Rightarrow> scalar \<Rightarrow> scalar" where
  "scalar_add (Fin a) (Fin b) = Fin (a + b)"
| "scalar_add NegZero NegZero = NegZero"
| "scalar_add NegZero (Fin b) = Fin b"
| "scalar_add (Fin a) NegZero = Fin a"
| "scalar_add NaN _ = NaN"
| "scalar_add _ NaN = NaN"
| "scalar_add NegInf PosInf = NaN"
| "scalar_add PosInf NegInf = NaN"
| "scalar_add NegInf _ = NegInf"
| "scalar_add PosInf _ = PosInf"
| "scalar_add _ NegInf = NegInf"
| "scalar_add _ PosInf = PosInf"

definition scalar_max :: "scalar \<Rightarrow> scalar \<Rightarrow> scalar" where
  "scalar_max a b = (if a = NaN \<or> b = NaN then NaN else if scalar_le a b then b else a)"

definition scalar_min :: "scalar \<Rightarrow> scalar \<Rightarrow> scalar" where
  "scalar_min a b = (if a = NaN \<or> b = NaN then NaN else if scalar_le a b then a else b)"

text \<open>
  The instance's padding of the cotangent of a windowed sum (section 4.3: the padding
  that inverts the forward padding and stride mapping): before, the dilated window
  less the forward low padding less one; after, what is left of the dilated input
  plus the dilated window less one, once the cotangent dilated by the strides and the
  padding before are taken off.
\<close>

definition example_vjp_padding ::
  "int list \<Rightarrow> int list \<Rightarrow> int list \<Rightarrow> int list \<Rightarrow> (int \<times> int) list \<Rightarrow>
   int list \<Rightarrow> int list \<Rightarrow> (int \<times> int) list" where
  "example_vjp_padding in_shape window_dimensions window_strides out_shape padding
      lhs_dilation rhs_dilation =
     map (\<lambda>(n, w, s, out, (lo, hi), ld, rd).
            (let pad_before = dilate_dim w rd - lo - 1
             in (pad_before,
                 dilate_dim n ld + dilate_dim w rd - 1 - dilate_dim out s - pad_before)))
       (zip in_shape (zip window_dimensions (zip window_strides (zip out_shape
          (zip padding (zip lhs_dilation rhs_dilation))))))"

text \<open>Of the padding names the instance knows \<open>VALID\<close> only: no padding.\<close>

definition example_env :: "(np_dtype, scalar) lax_env" where
  "example_env =
     \<lparr>val_eq = scalar_equal,
      const_zero = (\<lambda>_. Fin 0),
      get_max_identity = (\<lambda>_. NegInf),
      get_min_identity = (\<lambda>_. PosInf),
      neg_inf = (\<lambda>_. NegInf),
      pos_inf = (\<lambda>_. PosInf),
      is_number = (\<lambda>_. True),
      add_op = scalar_add,
      max_op = scalar_max,
      min_op = scalar_min,
      ge_op = (\<lambda>a b. scalar_le b a),
      le_op = scalar_le,
      padtype_to_pads = (\<lambda>in_shape window_shape window_strides name.
         if name = ''VALID'' then Inr (replicate (length in_shape) (0, 0))
         else Inl ValueError),
      conv_general_vjp_lhs_padding = example_vjp_padding\<rparr>"

definition example_operand :: "(np_dtype, scalar) jexpr" where
  "example_operand =
     Concrete \<lparr>dtype = float32, shape = [4], data = [Fin 1, Fin 5, Fin 2, Fin 4]\<rparr>"

definition example_tangents :: "(np_dtype, scalar) jexpr" where
  "example_tangents =
     Concrete \<lparr>dtype = float32, shape = [4], data = [Fin 10, Fin 20, Fin 30, Fin 40]\<rparr>"

definition example_scalar :: "scalar \<Rightarrow> (np_dtype, scalar) jexpr" where
  "example_scalar v = Concrete \<lparr>dtype = float32, shape = [], data = [v]\<rparr>"

definition example_zeros :: "(np_dtype, scalar) jexpr" where
  "example_zeros = Concrete \<lparr>dtype = float32, shape = [2], data = [NegZero, NegZero]\<rparr>"

subsection \<open>Reverse mode of \<open>select_and_gather_add\<close>\<close>

text \<open>
  A transpose rule gets a cotangent, which is a symbolic zero (\<open>ad_util.Zero\<close>, with an
  abstract value) or a value, and its primal arguments, each undefined (the linear
  one, known by its abstract value only) or a value. It returns one cotangent per
  argument, \<open>None\<close> for an argument that is not linear.
\<close>

datatype ('d, 'a) cotangent = Zero 'd "int list" | Cotangent "('d, 'a) jexpr"

datatype ('d, 'a) primal = UndefinedPrimal 'd "int list" | Primal "('d, 'a) jexpr"

text \<open>\<open>_select_and_gather_add_transpose\<close> (lines 791-814).\<close>

definition select_and_gather_add_transpose ::
  "('d, 'a) lax_env \<Rightarrow> ('d, 'a) cotangent \<Rightarrow> ('d, 'a) primal \<Rightarrow> ('d, 'a) primal \<Rightarrow>
   select_prim \<Rightarrow> int list \<Rightarrow> int list \<Rightarrow> (int \<times> int) list \<Rightarrow> int list \<Rightarrow> int list \<Rightarrow>
   py_error + ('d, 'a) cotangent option list" where
  "select_and_gather_add_transpose env t tangents operand select_prim window_dimensions
      window_strides padding base_dilation window_dilation =
     (if \<not> (select_prim = le_p \<or> select_prim = ge_p) then Inl AssertionError
      else (case (tangents, operand) of
              (UndefinedPrimal tangents_dtype tangents_shape, Primal operand') \<Rightarrow>
                if list_ex (\<lambda>d. d \<noteq> 1) window_dilation then Inl NotImplementedError
                else (case t of
                        Zero _ _ \<Rightarrow> Inr [Some (Zero tangents_dtype tangents_shape), None]
                      | Cotangent t' \<Rightarrow>
                          (let has_base_dilation = list_ex (\<lambda>d. d \<noteq> 1) base_dilation;
                               select_identity =
                                 (if select_prim = ge_p then get_max_identity env
                                  else get_min_identity env)
                           in case (if has_base_dilation
                                    then pad operand' (select_identity (dtype_of operand'))
                                           (map (\<lambda>d. (0, 0, d - 1)) base_dilation)
                                    else Inr operand') of
                                Inl e \<Rightarrow> Inl e
                              | Inr operand'' \<Rightarrow>
                                  (let result = select_and_scatter_add t' operand''
                                         select_prim window_dimensions window_strides padding
                                   in case (if has_base_dilation
                                            then slice result
                                                   (replicate (length (shape_of result)) 0)
                                                   (shape_of result) (Some base_dilation)
                                            else Inr result) of
                                        Inl e \<Rightarrow> Inl e
                                      | Inr result' \<Rightarrow>
                                          Inr [Some (Cotangent result'), None])))
            | _ \<Rightarrow> Inl AssertionError))"

subsection \<open>Reverse mode of the windowed sum\<close>



subsection \<open>Lowering\<close>

text \<open>
  The lowering rules emit one \<open>mhlo.ReduceWindowOp\<close>: the result types, the operands,
  the init values, the window geometry and the reducer region, which combines the
  accumulator scalars with the element scalars.
\<close>

datatype ('d, 'a) mhlo_op =
  ReduceWindowOp "('d \<times> int list) list" "('d, 'a) jexpr list" "('d, 'a) jexpr list"
    "int list" "int list" "int list" "int list" "(int \<times> int) list"
    "'a list \<Rightarrow> 'a list \<Rightarrow> 'a list"

text \<open>\<open>mlir.full_like_aval\<close> on a scalar abstract value: a constant of rank 0.\<close>

definition full_like_aval :: "'a \<Rightarrow> 'd \<Rightarrow> ('d, 'a) jexpr" where
  "full_like_aval v d = Concrete \<lparr>dtype = d, shape = [], data = [v]\<rparr>"

text \<open>
  \<open>_reduce_window_lower\<close> (lines 443-462): the region returns \<open>reduce_op\<close> of its
  two arguments; the init value is the constant \<open>init_value(dtype)\<close>.
\<close>

definition reduce_window_lower ::
  "('a \<Rightarrow> 'a \<Rightarrow> 'a) \<Rightarrow> ('d \<Rightarrow> 'a) \<Rightarrow> 'd \<times> int list \<Rightarrow> 'd \<times> int list \<Rightarrow> ('d, 'a) jexpr \<Rightarrow>
   int list \<Rightarrow> int list \<Rightarrow> (int \<times> int) list \<Rightarrow> int list \<Rightarrow> int list \<Rightarrow> ('d, 'a) mhlo_op" where
  "reduce_window_lower reduce_op init_value aval_out operand_aval operand window_dimensions
      window_strides padding base_dilation window_dilation =
     ReduceWindowOp [aval_out] [operand]
       [full_like_aval (init_value (fst operand_aval)) (fst operand_aval)]
       window_dimensions window_strides base_dilation window_dilation padding
       (\<lambda>xs ys. map2 reduce_op xs ys)"

text \<open>
  The region a combining function lowers to (\<open>mlir.jaxpr_subcomp\<close>): \<open>lax.add\<close>,
  \<open>lax.max\<close> and \<open>lax.min\<close> lower to \<open>mhlo.AddOp\<close>, \<open>mlir.max_mhlo\<close> and
  \<open>mlir.min_mhlo\<close>. A combining function of the model has no effects, so the
  \<open>jaxpr.effects\<close> check of the lowering does not raise.
\<close>

definition callable_body ::
  "('d, 'a) lax_env \<Rightarrow> 'a callable \<Rightarrow> 'a list \<Rightarrow> 'a list \<Rightarrow> 'a list" where
  "callable_body env c =
     (case c of
        lax_add \<Rightarrow> (\<lambda>xs ys. map2 (add_op env) xs ys)
      | lax_max \<Rightarrow> (\<lambda>xs ys. map2 (max_op env) xs ys)
      | lax_min \<Rightarrow> (\<lambda>xs ys. map2 (min_op env) xs ys)
      | py_function _ f \<Rightarrow> f)"

text \<open>\<open>_generic_reduce_window_lower\<close> (lines 293-316).\<close>

definition generic_reduce_window_lower ::
  "('d, 'a) lax_env \<Rightarrow> ('d \<times> int list) list \<Rightarrow> ('d, 'a) jexpr list \<Rightarrow> 'a callable \<Rightarrow>
   int list \<Rightarrow> int list \<Rightarrow> (int \<times> int) list \<Rightarrow> int list \<Rightarrow> int list \<Rightarrow> ('d, 'a) mhlo_op" where
  "generic_reduce_window_lower env avals_out args jaxpr window_dimensions window_strides
      padding base_dilation window_dilation =
     ReduceWindowOp avals_out (take (length args div 2) args) (drop (length args div 2) args)
       window_dimensions window_strides base_dilation window_dilation padding
       (callable_body env jaxpr)"

text \<open>
  The lowering registered for each windowed reduction primitive (lines 318 and
  464-469), with the index of the tracer's result among the results of the
  operation.
\<close>

fun lower_eqn ::
  "('d, 'a) lax_env \<Rightarrow> 'd \<times> int list \<Rightarrow> ('d, 'a) eqn \<Rightarrow> (('d, 'a) mhlo_op \<times> nat) option" where
  "lower_eqn env aval_out (reduce_window_sum_p x wd ws pads bd wdil) =
     Some (reduce_window_lower (add_op env) (const_zero env) aval_out
             (dtype_of x, shape_of x) x wd ws pads bd wdil, 0)"
| "lower_eqn env aval_out (reduce_window_max_p x wd ws pads bd wdil) =
     Some (reduce_window_lower (max_op env) (get_max_identity env) aval_out
             (dtype_of x, shape_of x) x wd ws pads bd wdil, 0)"
| "lower_eqn env aval_out (reduce_window_min_p x wd ws pads bd wdil) =
     Some (reduce_window_lower (min_op env) (get_min_identity env) aval_out
             (dtype_of x, shape_of x) x wd ws pads bd wdil, 0)"
| "lower_eqn env aval_out (reduce_window_p k operands init_values jaxpr wd ws pads bd wdil) =
     Some (generic_reduce_window_lower env
             (map (\<lambda>x. (dtype_of x, snd aval_out)) operands)
             (operands @ init_values) jaxpr wd ws pads bd wdil, k)"
| "lower_eqn env aval_out _ = None"

fun lower :: "('d, 'a) lax_env \<Rightarrow> ('d, 'a) jexpr \<Rightarrow> (('d, 'a) mhlo_op \<times> nat) option" where
  "lower env (Concrete a) = None"
| "lower env (Tracer d s e) = lower_eqn env (d, s) e"

subsection \<open>Forward mode of max and min, and \<open>select_and_gather_add\<close> by a variadic reduction\<close>

text \<open>
  \<open>_reduce_window_chooser_jvp_rule\<close> (lines 373-380); \<open>prim\<close> is \<open>lax.max_p\<close> or
  \<open>lax.min_p\<close>.
\<close>

datatype lax_prim = max_p | min_p | other_lax_prim

definition reduce_window_chooser_jvp_rule ::
  "lax_prim \<Rightarrow> ('d, 'a) jexpr \<Rightarrow> ('d, 'a) jexpr \<Rightarrow> int list \<Rightarrow> int list \<Rightarrow> (int \<times> int) list \<Rightarrow>
   int list \<Rightarrow> int list \<Rightarrow> py_error + ('d, 'a) jexpr" where
  "reduce_window_chooser_jvp_rule prim g operand window_dimensions window_strides padding
      base_dilation window_dilation =
     (if \<not> (prim = max_p \<or> prim = min_p) then Inl AssertionError
      else (let select_prim = (if prim = max_p then ge_p else le_p)
            in select_and_gather_add g operand select_prim window_dimensions window_strides
                 padding base_dilation window_dilation))"

text \<open>
  \<open>_select_and_gather_add_using_variadic_reducewindow\<close> (lines 756-772). The
  reducer takes two pairs of a key and a value: \<open>which\<close> is the select primitive on
  the two keys and \<open>lax.select\<close> picks the first pair's components where it holds.
\<close>

definition select_prim_bind :: "('d, 'a) lax_env \<Rightarrow> select_prim \<Rightarrow> 'a \<Rightarrow> 'a \<Rightarrow> bool" where
  "select_prim_bind env select_prim kx ky =
     (if select_prim = ge_p then ge_op env kx ky else le_op env kx ky)"

definition gather_reducer ::
  "('d, 'a) lax_env \<Rightarrow> select_prim \<Rightarrow> 'a list \<Rightarrow> 'a list \<Rightarrow> 'a list" where
  "gather_reducer env select_prim x y =
     (case (x, y) of
        ([kx, vx], [ky, vy]) \<Rightarrow>
          (let which = select_prim_bind env select_prim kx ky
           in [if which then kx else ky, if which then vx else vy])
      | _ \<Rightarrow> [])"

definition select_and_gather_add_using_variadic_reducewindow ::
  "('d, 'a) lax_env \<Rightarrow> ('d, 'a) jexpr \<Rightarrow> ('d, 'a) jexpr \<Rightarrow> select_prim \<Rightarrow> int list \<Rightarrow>
   int list \<Rightarrow> (int \<times> int) list \<Rightarrow> int list \<Rightarrow> int list \<Rightarrow> py_error + ('d, 'a) jexpr" where
  "select_and_gather_add_using_variadic_reducewindow env tangents operand select_prim
      window_dimensions window_strides padding base_dilation window_dilation =
     (if \<not> (select_prim = ge_p \<or> select_prim = le_p) then Inl AssertionError
      else (let init = (if select_prim = ge_p then neg_inf env (dtype_of operand)
                        else pos_inf env (dtype_of operand))
            in case reduce_window env (Tuple [Leaf operand, Leaf tangents])
                      (Tuple [Leaf (Concrete \<lparr>dtype = dtype_of operand, shape = [],
                                               data = [init]\<rparr>),
                              Leaf (Concrete \<lparr>dtype = dtype_of operand, shape = [],
                                               data = [const_zero env (dtype_of operand)]\<rparr>)])
                      (py_function (Tuple [Leaf (), Leaf ()]) (gather_reducer env select_prim))
                      window_dimensions window_strides (PaddingSeq padding)
                      (Some base_dilation) (Some window_dilation) of
                 Inl e \<Rightarrow> Inl e
               | Inr (Tuple [_, Leaf out]) \<Rightarrow> Inr out
               | Inr _ \<Rightarrow> Inl ValueError))"

subsection \<open>The backend's windowed reduction\<close>

text \<open>
  Modelled from the spec: the backend that runs a \<open>ReduceWindowOp\<close> is not part of
  the repository. Sections 4.1, 4.3 and 4.5: the operand is dilated by the base
  dilation and padded; each output position has a window of the window dimensions,
  placed by the strides and spread by the window dilation, and the reducer folds the
  window's elements into the init value; a slot of the padding or of a gap of the
  dilation holds the init value. The elements of an array are in row-major order.
\<close>

fun all_indices :: "int list \<Rightarrow> int list list" where
  "all_indices [] = [[]]"
| "all_indices (n # ns) =
     concat (map (\<lambda>i. map ((#) (int i)) (all_indices ns)) [0..<nat n])"

fun flat_index :: "int list \<Rightarrow> int list \<Rightarrow> nat" where
  "flat_index (n # ns) (i # idx) = nat i * prod_list (map nat ns) + flat_index ns idx"
| "flat_index _ _ = 0"

definition source_index :: "int \<Rightarrow> int \<Rightarrow> int \<Rightarrow> int \<Rightarrow> int option" where
  "source_index n lo bd p =
     (let q = p - lo
      in if 0 \<le> q \<and> q < dilate_dim n bd \<and> q mod bd = 0 then Some (q div bd) else None)"

fun window_source ::
  "int list \<Rightarrow> int list \<Rightarrow> (int \<times> int) list \<Rightarrow> int list \<Rightarrow> int list \<Rightarrow> int list \<Rightarrow>
   int list \<Rightarrow> int list option" where
  "window_source (n # ns) (s # ss) ((lo, hi) # ps) (b # bs) (w # ws) (i # idx) (k # ks) =
     (case source_index n lo b (i * s + k * w) of
        None \<Rightarrow> None
      | Some j \<Rightarrow> map_option ((#) j) (window_source ns ss ps bs ws idx ks))"
| "window_source _ _ _ _ _ _ _ = Some []"

definition window_element ::
  "int list \<Rightarrow> (int \<times> int) list \<Rightarrow> int list \<Rightarrow> int list \<Rightarrow> int list \<Rightarrow> int list \<Rightarrow>
   ('d, 'a) ndarray \<times> 'a \<Rightarrow> 'a" where
  "window_element window_strides padding base_dilation window_dilation idx ks =
     (\<lambda>(a, init).
        case window_source (shape a) window_strides padding base_dilation window_dilation
               idx ks of
          None \<Rightarrow> init
        | Some src \<Rightarrow> data a ! flat_index (shape a) src)"

definition exec_reduce_window ::
  "('d \<times> int list) list \<Rightarrow> ('d, 'a) ndarray list \<Rightarrow> 'a list \<Rightarrow> int list \<Rightarrow> int list \<Rightarrow>
   int list \<Rightarrow> int list \<Rightarrow> (int \<times> int) list \<Rightarrow> ('a list \<Rightarrow> 'a list \<Rightarrow> 'a list) \<Rightarrow>
   ('d, 'a) ndarray list" where
  "exec_reduce_window result_avals operands init_values window_dimensions window_strides
      base_dilation window_dilation padding reducer =
     map (\<lambda>(k, d, out_shape).
            \<lparr>dtype = d, shape = out_shape,
             data = map (\<lambda>idx.
                      foldl reducer init_values
                        (map (\<lambda>ks. map (window_element window_strides padding base_dilation
                                          window_dilation idx ks)
                                     (zip operands init_values))
                           (all_indices window_dimensions)) ! k)
                    (all_indices out_shape)\<rparr>)
       (zip [0..<length result_avals] result_avals)"

fun concrete_of :: "('d, 'a) jexpr \<Rightarrow> ('d, 'a) ndarray option" where
  "concrete_of (Concrete a) = Some a"
| "concrete_of (Tracer _ _ _) = None"

definition scalar_of :: "('d, 'a) jexpr \<Rightarrow> 'a option" where
  "scalar_of x =
     (case concrete_of x of
        Some a \<Rightarrow> (case data a of [v] \<Rightarrow> Some v | _ \<Rightarrow> None)
      | None \<Rightarrow> None)"

fun run_op :: "('d, 'a) mhlo_op \<Rightarrow> ('d, 'a) ndarray list option" where
  "run_op (ReduceWindowOp result_avals operands init_values wd ws bd wdil pads reducer) =
     (case (those (map concrete_of operands), those (map scalar_of init_values)) of
        (Some arrays, Some inits) \<Rightarrow>
          Some (exec_reduce_window result_avals arrays inits wd ws bd wdil pads reducer)
      | _ \<Rightarrow> None)"

definition run_lowered :: "('d, 'a) lax_env \<Rightarrow> ('d, 'a) jexpr \<Rightarrow> ('d, 'a) ndarray option" where
  "run_lowered env e =
     (case lower env e of
        Some (op, k) \<Rightarrow>
          (case run_op op of
             Some outs \<Rightarrow> if k < length outs then Some (outs ! k) else None
           | None \<Rightarrow> None)
      | None \<Rightarrow> None)"

text \<open>
  The value of a tracer whose operands are concrete. \<open>select_and_gather_add_p\<close> is
  lowered through \<open>_select_and_gather_add_using_variadic_reducewindow\<close> (lines
  845-847).
\<close>

definition evaluate :: "('d, 'a) lax_env \<Rightarrow> ('d, 'a) jexpr \<Rightarrow> ('d, 'a) ndarray option" where
  "evaluate env e =
     (case e of
        Tracer d s (select_and_gather_add_p tangents operand select_prim wd ws pads bd wdil) \<Rightarrow>
          (case select_and_gather_add_using_variadic_reducewindow env tangents operand
                  select_prim wd ws pads bd wdil of
             Inr out \<Rightarrow> run_lowered env out
           | Inl _ \<Rightarrow> None)
      | _ \<Rightarrow> run_lowered env e)"

definition evaluate_result ::
  "('d, 'a) lax_env \<Rightarrow> py_error + ('d, 'a) jexpr \<Rightarrow> 'a list option" where
  "evaluate_result env r =
     (case r of Inl _ \<Rightarrow> None | Inr e \<Rightarrow> map_option data (evaluate env e))"

section \<open>Properties\<close>

subsection \<open>Shape law\<close>








subsection \<open>Packing round trip\<close>

text \<open>
  C4. In the wide-word strategy (the double word has twice the bits of the operand's
  dtype), unpacking a packed pair gives back both bit patterns: \<open>fst (pack a b)\<close> is
  \<open>a\<close> and \<open>snd (pack a b)\<close> is \<open>b\<close>, for every pair of words, so also for the
  patterns of the zeros and of the infinities used as identities.
\<close>

theorem pack_unpack_roundtrip:
  fixes a b :: "'a::len word"
  assumes "LENGTH('b::len) = 2 * LENGTH('a)"
  shows "(fst_w LENGTH('a) (pack LENGTH('a) a b :: 'b word) :: 'a word) = a
       \<and> (snd_w (pack LENGTH('a) a b :: 'b word) :: 'a word) = b"
proof
  show "(fst_w LENGTH('a) (pack LENGTH('a) a b :: 'b word) :: 'a word) = a"
    unfolding fst_w_def pack_def
    by (rule bit_word_eqI) (use assms in \<open>auto simp add: bit_simps dest: bit_imp_le_length\<close>)
  show "(snd_w (pack LENGTH('a) a b :: 'b word) :: 'a word) = b"
    unfolding snd_w_def pack_def
    by (rule bit_word_eqI) (use assms in \<open>auto simp add: bit_simps dest: bit_imp_le_length\<close>)
qed

theorem pack_unpack_roundtrip_witness:
  "double_word_reduction 32 64
   \<and> (pack 32 (0xFF800000 :: 32 word) (0x80000000 :: 32 word) :: 64 word) = 0xFF80000080000000
   \<and> (fst_w 32 (pack 32 (0xFF800000 :: 32 word) (0x80000000 :: 32 word) :: 64 word) :: 32 word)
       = 0xFF800000
   \<and> (snd_w (pack 32 (0xFF800000 :: 32 word) (0x80000000 :: 32 word) :: 64 word) :: 32 word)
       = 0x80000000"
  using pack_unpack_roundtrip [where 'a = 32 and 'b = 64, of "0xFF800000" "0x80000000"]
  by (simp add: double_word_reduction_def pack_def)

subsection \<open>The monoid fast path\<close>

lemma length_tree_leaves_map:
  "length (tree_leaves (map_pytree f t)) = length (tree_leaves t)"
proof (induction t)
  case (Leaf x)
  then show ?case by simp
next
  case (Tuple ts)
  then show ?case
    by (induction ts) auto
qed

lemma length_leaves_structure:
  "tree_structure s = tree_structure t \<Longrightarrow> length (tree_leaves s) = length (tree_leaves t)"
  by (metis length_tree_leaves_map tree_structure_def)

lemma monoid_reducer_spec:
  "(case get_monoid_window_reducer env c xs of PyFunction f \<Rightarrow> Some f | _ \<Rightarrow> None)
     = spec_fast_path env c xs"
  by (auto simp add: get_monoid_window_reducer_def spec_fast_path_def and_then_def scalar_eq_def
      split: list.splits jexpr.splits callable.splits aval.splits)

lemma reduce_window_cases:
  assumes trees: "tree_structure operand = tree_structure init_value"
    and some: "tree_leaves operand \<noteq> []"
    and pads: "resolve_padding env (tree_leaves operand) window_dimensions window_strides
        padding window_dilation = Inr pads"
  shows "reduce_window env operand init_value computation window_dimensions window_strides
      padding base_dilation window_dilation =
    (case spec_fast_path env computation (tree_leaves init_value) of
       Some f \<Rightarrow>
         map_sum id Leaf
           (call_monoid_reducer env f operand window_dimensions window_strides pads
              (default_dilation window_dimensions base_dilation)
              (default_dilation window_dimensions window_dilation))
     | None \<Rightarrow>
         reduce_window_generic operand init_value computation window_dimensions
           window_strides pads
           (default_dilation window_dimensions base_dilation)
           (default_dilation window_dimensions window_dilation))"
proof -
  have len: "length (tree_leaves operand) = length (tree_leaves init_value)"
    using trees by (rule length_leaves_structure)
  show ?thesis
    using trees some len pads
    unfolding monoid_reducer_spec [symmetric, of env computation "tree_leaves init_value"]
    by (simp add: reduce_window_def Let_def split: py_value.splits)
qed



lemmas shape_rule_defs =
  common_reduce_window_shape_rule_def check_shapelike_def raise_if_def
  reduce_window_shape_tuple_def dilate_shape_def dilate_dim_def unzip2_def sum_shapes_def
  stride_dim_def default_dilation_def Let_def

lemmas example_defs =
  example_env_def example_operand_def example_tangents_def example_scalar_def
  scalar_equal_def scalar_max_def scalar_min_def



subsection \<open>Reverse mode of \<open>select_and_gather_add\<close>\<close>

lemma dilate_dim_nonneg: "1 \<le> d \<Longrightarrow> 0 \<le> dilate_dim n d"
  by (simp add: dilate_dim_def)

lemma pad_shape_rule_dilate:
  assumes "length bd = length sh" and "\<forall>d \<in> set bd. 1 \<le> d" and "\<forall>n \<in> set sh. 0 \<le> n"
  shows "pad_shape_rule sh (map (\<lambda>d. (0, 0, d - 1)) bd) = Inr (map2 dilate_dim sh bd)"
proof -
  have interior: "\<not> list_ex (\<lambda>(lo, hi, i). i < 0) (map (\<lambda>d. (0, 0, d - 1)) bd)"
    using assms(2) by (auto simp add: list_ex_iff)
  have "map (\<lambda>((lo, hi, i), d). lo + hi + dilate_dim d (i + 1))
          (zip (map (\<lambda>d. (0, 0, d - 1)) bd) sh) = map2 dilate_dim sh bd"
    using assms(1) by (induction bd sh rule: list_induct2) simp_all
  moreover have "\<not> list_ex (\<lambda>d. d < 0) (map2 dilate_dim sh bd)"
    using assms(2)
    by (auto simp add: list_ex_iff not_less dilate_dim_nonneg dest!: set_zip_rightD)
  ultimately show ?thesis
    using assms(1) interior by (simp add: pad_shape_rule_def)
qed

lemma strided_extent: "0 \<le> n \<Longrightarrow> 1 \<le> d \<Longrightarrow> (dilate_dim n d + d - 1) div d = (n::int)"
proof (cases "0 < n")
  case True
  assume "1 \<le> d"
  have "dilate_dim n d + d - 1 = n * d"
    using True by (simp add: dilate_dim_def algebra_simps)
  then show ?thesis
    using \<open>1 \<le> d\<close> by simp
next
  case False
  assume "0 \<le> n" "1 \<le> d"
  then show ?thesis
    using False by (simp add: dilate_dim_def)
qed

lemma slice_shape_rule_dilated:
  assumes "length bd = length sh" and "\<forall>d \<in> set bd. 1 \<le> d" and "\<forall>n \<in> set sh. 0 \<le> n"
  shows "slice_shape_rule (map2 dilate_dim sh bd)
           (replicate (length (map2 dilate_dim sh bd)) 0) (map2 dilate_dim sh bd) (Some bd)
         = Inr sh"
proof -
  let ?ds = "map2 dilate_dim sh bd"
  have refl: "list_all2 (\<le>) ?ds ?ds"
    by (simp add: list_all2_refl)
  have nonneg: "list_all2 (\<le>) (replicate (length ?ds) 0) ?ds"
    using assms(2)
    by (auto simp add: list_all2_conv_all_nth dilate_dim_nonneg)
  have strides: "\<not> list_ex (\<lambda>k. k \<le> 0) bd"
    using assms(2) by (auto simp add: list_ex_iff)
  have "map (\<lambda>(l, s, k). (l - s + k - 1) div k)
          (zip ?ds (zip (replicate (length ?ds) 0) bd)) = sh"
    using assms by (induction bd sh rule: list_induct2) (simp_all add: strided_extent)
  then show ?thesis
    using assms(1) refl nonneg strides
    by (simp add: slice_shape_rule_def list_ex_iff)
qed

text \<open>
  C8. With a select primitive that is \<open>ge_p\<close> or \<open>le_p\<close>, undefined tangents and a
  defined operand (the rule's assertions), the transpose raises NotImplementedError
  whenever an entry of \<open>window_dilation\<close> differs from 1; when all are 1 and the
  cotangent is not a symbolic zero, the cotangent goes into
  \<open>select_and_scatter_add\<close> with the same select primitive, window dimensions,
  strides and padding: on the operand itself when the base dilation is trivial, and,
  when it is not (its entries at least 1, one per dimension of the operand), on the
  operand padded with the identity of the select primitive, followed by a slice.
\<close>

theorem select_and_gather_add_transpose_routing:
  assumes "select_prim = ge_p \<or> select_prim = le_p"
  shows "(list_ex (\<lambda>d. d \<noteq> 1) window_dilation \<longrightarrow>
            select_and_gather_add_transpose env t (UndefinedPrimal td ts) (Primal operand)
              select_prim window_dimensions window_strides padding base_dilation
              window_dilation = Inl NotImplementedError)
       \<and> (\<not> list_ex (\<lambda>d. d \<noteq> 1) window_dilation \<and> \<not> list_ex (\<lambda>d. d \<noteq> 1) base_dilation \<longrightarrow>
            select_and_gather_add_transpose env (Cotangent ct) (UndefinedPrimal td ts)
              (Primal operand) select_prim window_dimensions window_strides padding
              base_dilation window_dilation
            = Inr [Some (Cotangent (select_and_scatter_add ct operand select_prim
                     window_dimensions window_strides padding)), None])
       \<and> (\<not> list_ex (\<lambda>d. d \<noteq> 1) window_dilation \<and> list_ex (\<lambda>d. d \<noteq> 1) base_dilation
            \<and> (\<forall>d \<in> set base_dilation. 1 \<le> d)
            \<and> length base_dilation = length (shape_of operand)
            \<and> (\<forall>n \<in> set (shape_of operand). 0 \<le> n) \<longrightarrow>
            select_and_gather_add_transpose env (Cotangent ct) (UndefinedPrimal td ts)
              (Primal operand) select_prim window_dimensions window_strides padding
              base_dilation window_dilation
            = Inr [Some (Cotangent (Tracer (dtype_of ct) (shape_of operand)
                (slice_p
                   (select_and_scatter_add ct
                      (Tracer (dtype_of operand)
                         (map2 dilate_dim (shape_of operand) base_dilation)
                         (pad_p operand
                            (if select_prim = ge_p then get_max_identity env (dtype_of operand)
                             else get_min_identity env (dtype_of operand))
                            (map (\<lambda>d. (0, 0, d - 1)) base_dilation)))
                      select_prim window_dimensions window_strides padding)
                   (replicate (length (shape_of operand)) 0)
                   (map2 dilate_dim (shape_of operand) base_dilation)
                   (Some base_dilation)))), None])"
proof (intro conjI impI)
  assume "list_ex (\<lambda>d. d \<noteq> 1) window_dilation"
  then show "select_and_gather_add_transpose env t (UndefinedPrimal td ts) (Primal operand)
              select_prim window_dimensions window_strides padding base_dilation
              window_dilation = Inl NotImplementedError"
    using assms by (auto simp add: select_and_gather_add_transpose_def)
next
  assume "\<not> list_ex (\<lambda>d. d \<noteq> 1) window_dilation \<and> \<not> list_ex (\<lambda>d. d \<noteq> 1) base_dilation"
  then show "select_and_gather_add_transpose env (Cotangent ct) (UndefinedPrimal td ts)
              (Primal operand) select_prim window_dimensions window_strides padding
              base_dilation window_dilation
            = Inr [Some (Cotangent (select_and_scatter_add ct operand select_prim
                     window_dimensions window_strides padding)), None]"
    using assms by (auto simp add: select_and_gather_add_transpose_def Let_def)
next
  assume h: "\<not> list_ex (\<lambda>d. d \<noteq> 1) window_dilation \<and> list_ex (\<lambda>d. d \<noteq> 1) base_dilation
            \<and> (\<forall>d \<in> set base_dilation. 1 \<le> d)
            \<and> length base_dilation = length (shape_of operand)
            \<and> (\<forall>n \<in> set (shape_of operand). 0 \<le> n)"
  then have wd: "\<not> list_ex (\<lambda>d. d \<noteq> 1) window_dilation"
    and bd: "list_ex (\<lambda>d. d \<noteq> 1) base_dilation" "\<forall>d \<in> set base_dilation. 1 \<le> d"
      "length base_dilation = length (shape_of operand)"
    and sh: "\<forall>n \<in> set (shape_of operand). 0 \<le> n"
    by simp_all
  have padded: "pad_shape_rule (shape_of operand) (map (\<lambda>d. (0, 0, d - 1)) base_dilation)
      = Inr (map2 dilate_dim (shape_of operand) base_dilation)"
    using bd(3) bd(2) sh by (rule pad_shape_rule_dilate)
  have sliced: "slice_shape_rule (map2 dilate_dim (shape_of operand) base_dilation)
      (replicate (length (map2 dilate_dim (shape_of operand) base_dilation)) 0)
      (map2 dilate_dim (shape_of operand) base_dilation) (Some base_dilation)
      = Inr (shape_of operand)"
    using bd(3) bd(2) sh by (rule slice_shape_rule_dilated)
  have len: "length (map2 dilate_dim (shape_of operand) base_dilation)
      = length (shape_of operand)"
    using bd(3) by simp
  show "select_and_gather_add_transpose env (Cotangent ct) (UndefinedPrimal td ts)
              (Primal operand) select_prim window_dimensions window_strides padding
              base_dilation window_dilation
            = Inr [Some (Cotangent (Tracer (dtype_of ct) (shape_of operand)
                (slice_p
                   (select_and_scatter_add ct
                      (Tracer (dtype_of operand)
                         (map2 dilate_dim (shape_of operand) base_dilation)
                         (pad_p operand
                            (if select_prim = ge_p then get_max_identity env (dtype_of operand)
                             else get_min_identity env (dtype_of operand))
                            (map (\<lambda>d. (0, 0, d - 1)) base_dilation)))
                      select_prim window_dimensions window_strides padding)
                   (replicate (length (shape_of operand)) 0)
                   (map2 dilate_dim (shape_of operand) base_dilation)
                   (Some base_dilation)))), None]"
    using assms wd bd(1) padded sliced len
    by (auto simp add: select_and_gather_add_transpose_def Let_def pad_def slice_def
        select_and_scatter_add_def select_and_scatter_add_shape_rule_def)
qed

theorem select_and_gather_add_transpose_routing_witness:
  "select_and_gather_add_transpose example_env (Cotangent example_tangents)
       (UndefinedPrimal float32 [4]) (Primal example_operand) ge_p [2] [2] [(0, 0)] [1] [2]
     = Inl NotImplementedError
   \<and> select_and_gather_add_transpose example_env (Cotangent example_tangents)
       (UndefinedPrimal float32 [4]) (Primal example_operand) ge_p [2] [2] [(0, 0)] [1] [1]
     = Inr [Some (Cotangent (Tracer float32 [4]
          (select_and_scatter_add_p example_tangents example_operand ge_p [2] [2] [(0, 0)]))),
        None]
   \<and> select_and_gather_add_transpose example_env (Cotangent example_tangents)
       (UndefinedPrimal float32 [4]) (Primal example_operand) ge_p [2] [2] [(0, 0)] [3] [1]
     = Inr [Some (Cotangent (Tracer float32 [4]
         (slice_p
            (Tracer float32 [10]
               (select_and_scatter_add_p example_tangents
                  (Tracer float32 [10] (pad_p example_operand NegInf [(0, 0, 2)]))
                  ge_p [2] [2] [(0, 0)]))
            [0] [10] (Some [3])))), None]"
proof -
  have prim: "ge_p = ge_p \<or> ge_p = le_p"
    by simp
  have c1: "select_and_gather_add_transpose example_env (Cotangent example_tangents)
       (UndefinedPrimal float32 [4]) (Primal example_operand) ge_p [2] [2] [(0, 0)] [1] [2]
     = Inl NotImplementedError"
    using select_and_gather_add_transpose_routing [OF prim, of "[2]" example_env
        "Cotangent example_tangents" float32 "[4]" example_operand "[2]" "[2]" "[(0, 0)]" "[1]"
        example_tangents]
    by simp
  have c2: "select_and_gather_add_transpose example_env (Cotangent example_tangents)
       (UndefinedPrimal float32 [4]) (Primal example_operand) ge_p [2] [2] [(0, 0)] [1] [1]
     = Inr [Some (Cotangent (Tracer float32 [4]
          (select_and_scatter_add_p example_tangents example_operand ge_p [2] [2] [(0, 0)]))),
        None]"
    using select_and_gather_add_transpose_routing [OF prim, of "[1]" example_env
        "Cotangent example_tangents" float32 "[4]" example_operand "[2]" "[2]" "[(0, 0)]" "[1]"
        example_tangents]
    by (simp add: select_and_scatter_add_def select_and_scatter_add_shape_rule_def
        example_operand_def example_tangents_def)
  have c3: "select_and_gather_add_transpose example_env (Cotangent example_tangents)
       (UndefinedPrimal float32 [4]) (Primal example_operand) ge_p [2] [2] [(0, 0)] [3] [1]
     = Inr [Some (Cotangent (Tracer float32 [4]
         (slice_p
            (Tracer float32 [10]
               (select_and_scatter_add_p example_tangents
                  (Tracer float32 [10] (pad_p example_operand NegInf [(0, 0, 2)]))
                  ge_p [2] [2] [(0, 0)]))
            [0] [10] (Some [3])))), None]"
    using select_and_gather_add_transpose_routing [OF prim, of "[1]" example_env
        "Cotangent example_tangents" float32 "[4]" example_operand "[2]" "[2]" "[(0, 0)]" "[3]"
        example_tangents]
    by (simp add: select_and_scatter_add_def select_and_scatter_add_shape_rule_def
        example_operand_def example_tangents_def example_env_def dilate_dim_def)
  show ?thesis
    using c1 c2 c3 by (intro conjI)
qed

text \<open>
  C10. With all window dilations 1, a base dilation that is not trivial (entries at
  least 1, one per dimension of the operand) and a cotangent that is not a symbolic
  zero, the transpose pads the operand with the identity of the select primitive
  (max-identity for \<open>ge_p\<close>, min-identity for \<open>le_p\<close>) with interior padding
  \<open>base_dilation[i] - 1\<close>, applies \<open>select_and_scatter_add\<close> with the original window
  dimensions, strides and padding, and slices the result from 0 to its shape with
  strides \<open>base_dilation\<close>; the cotangent has the shape of the tangents, which is the
  operand's. A symbolic zero cotangent gives a symbolic zero of the tangents' abstract
  value and binds no primitive.
\<close>

theorem select_and_gather_add_transpose_base_dilation:
  assumes prim: "select_prim = ge_p \<or> select_prim = le_p"
    and wd: "\<not> list_ex (\<lambda>d. d \<noteq> 1) window_dilation"
    and bd: "list_ex (\<lambda>d. d \<noteq> 1) base_dilation" "\<forall>d \<in> set base_dilation. 1 \<le> d"
      "length base_dilation = length (shape_of operand)"
    and sh: "\<forall>n \<in> set (shape_of operand). 0 \<le> n" "ts = shape_of operand"
  shows "select_and_gather_add_transpose env (Cotangent ct) (UndefinedPrimal td ts)
           (Primal operand) select_prim window_dimensions window_strides padding
           base_dilation window_dilation
         = Inr [Some (Cotangent (Tracer (dtype_of ct) ts
             (slice_p
                (select_and_scatter_add ct
                   (Tracer (dtype_of operand) (map2 dilate_dim (shape_of operand) base_dilation)
                      (pad_p operand
                         (if select_prim = ge_p then get_max_identity env (dtype_of operand)
                          else get_min_identity env (dtype_of operand))
                         (map (\<lambda>d. (0, 0, d - 1)) base_dilation)))
                   select_prim window_dimensions window_strides padding)
                (replicate (length ts) 0)
                (map2 dilate_dim (shape_of operand) base_dilation)
                (Some base_dilation)))), None]
       \<and> select_and_gather_add_transpose env (Zero zd zs) (UndefinedPrimal td ts)
           (Primal operand) select_prim window_dimensions window_strides padding
           base_dilation window_dilation
         = Inr [Some (Zero td ts), None]"
proof -
  have padded: "pad_shape_rule (shape_of operand) (map (\<lambda>d. (0, 0, d - 1)) base_dilation)
      = Inr (map2 dilate_dim (shape_of operand) base_dilation)"
    using bd(3) bd(2) sh(1) by (rule pad_shape_rule_dilate)
  have sliced: "slice_shape_rule (map2 dilate_dim (shape_of operand) base_dilation)
      (replicate (length (map2 dilate_dim (shape_of operand) base_dilation)) 0)
      (map2 dilate_dim (shape_of operand) base_dilation) (Some base_dilation)
      = Inr (shape_of operand)"
    using bd(3) bd(2) sh(1) by (rule slice_shape_rule_dilated)
  have len: "length (map2 dilate_dim (shape_of operand) base_dilation) = length ts"
    using bd(3) sh(2) by simp
  show ?thesis
    using prim wd bd(1) sh(2) padded sliced len
    by (auto simp add: select_and_gather_add_transpose_def Let_def pad_def slice_def
        select_and_scatter_add_def select_and_scatter_add_shape_rule_def)
qed

theorem select_and_gather_add_transpose_base_dilation_witness:
  "select_and_gather_add_transpose example_env (Cotangent example_tangents)
       (UndefinedPrimal float32 [4]) (Primal example_operand) le_p [2] [3] [(0, 0)] [2] [1]
     = Inr [Some (Cotangent (Tracer float32 [4]
         (slice_p
            (Tracer float32 [7]
               (select_and_scatter_add_p example_tangents
                  (Tracer float32 [7] (pad_p example_operand PosInf [(0, 0, 1)]))
                  le_p [2] [3] [(0, 0)]))
            [0] [7] (Some [2])))), None]
   \<and> select_and_gather_add_transpose example_env (Zero float32 [2])
       (UndefinedPrimal float32 [4]) (Primal example_operand) le_p [2] [3] [(0, 0)] [2] [1]
     = Inr [Some (Zero float32 [4]), None]"
proof -
  have h: "le_p = ge_p \<or> le_p = le_p" "\<not> list_ex (\<lambda>d. d \<noteq> 1) [1::int]"
    "list_ex (\<lambda>d. d \<noteq> 1) [2::int]" "\<forall>d \<in> set [2::int]. 1 \<le> d"
    "length [2::int] = length (shape_of example_operand)"
    "\<forall>n \<in> set (shape_of example_operand). 0 \<le> n" "[4] = shape_of example_operand"
    by (simp_all add: example_operand_def)
  show ?thesis
    using select_and_gather_add_transpose_base_dilation [OF h, of example_env
        example_tangents float32 "[2]" "[3]" "[(0, 0)]" float32 "[2]"]
    by (simp add: select_and_scatter_add_def select_and_scatter_add_shape_rule_def
        example_operand_def example_tangents_def example_env_def dilate_dim_def)
qed

subsection \<open>Reverse mode of the windowed sum\<close>











subsection \<open>The fast path against the generic primitive\<close>

lemma reduce_window_generic_leaf:
  assumes "computation = lax_add \<or> computation = lax_max \<or> computation = lax_min"
    and "init = Concrete \<lparr>dtype = dtype_of x, shape = [], data = [v]\<rparr>"
  shows "reduce_window_generic (Leaf x) (Leaf init) computation window_dimensions
      window_strides pads bd wdil
    = map_sum id
        (\<lambda>s. Leaf (Tracer (dtype_of x) s
               (reduce_window_p 0 [x] [init] computation window_dimensions window_strides
                  pads bd wdil)))
        (common_reduce_window_shape_rule (shape_of x) window_dimensions window_strides
           pads bd wdil)"
  using assms
  by (auto simp add: reduce_window_generic_def variadic_reduction_jaxpr_def tree_structure_def
      reduce_window_p_bind_def reduce_window_abstract_eval_rule_def tree_unflatten_def
      split: sum.splits)

text \<open>
  For a single operand and a single init value that is a concrete scalar of the
  operand's dtype and is the very constant the specialized lowering uses (0 for
  addition, the max-identity for max, the min-identity for min; for addition the
  dtype is a number dtype), whenever the generic branch of \<open>reduce_window\<close> gives a
  result, \<open>reduce_window\<close> takes the fast path, and the specialized primitive it
  binds lowers to the same \<open>ReduceWindowOp\<close> as the generic primitive (operands,
  init value, geometry, reducer and result): a backend gives both the same output.
\<close>

lemma fast_path_same_lowering:
  assumes init: "init = Concrete \<lparr>dtype = dtype_of x, shape = [], data = [v]\<rparr>"
    and ident:
      "(computation = lax_add \<and> v = const_zero env (dtype_of x) \<and> is_number env (dtype_of x))
     \<or> (computation = lax_max \<and> v = get_max_identity env (dtype_of x))
     \<or> (computation = lax_min \<and> v = get_min_identity env (dtype_of x))"
    and refl: "val_eq env v v"
    and pads: "resolve_padding env [x] window_dimensions window_strides padding
        window_dilation = Inr pads"
    and generic: "reduce_window_generic (Leaf x) (Leaf init) computation window_dimensions
        window_strides pads (default_dilation window_dimensions base_dilation)
        (default_dilation window_dimensions window_dilation) = Inr (Leaf g)"
  shows "\<exists>f. reduce_window env (Leaf x) (Leaf init) computation window_dimensions
           window_strides padding base_dilation window_dilation = Inr (Leaf f)
       \<and> lower env f = lower env g \<and> lower env g \<noteq> None"
proof -
  let ?bd = "default_dilation window_dimensions base_dilation"
  let ?wdil = "default_dilation window_dimensions window_dilation"
  have comp: "computation = lax_add \<or> computation = lax_max \<or> computation = lax_min"
    using ident by blast
  obtain s where rule: "common_reduce_window_shape_rule (shape_of x) window_dimensions
        window_strides pads ?bd ?wdil = Inr s"
      and g: "g = Tracer (dtype_of x) s
        (reduce_window_p 0 [x] [init] computation window_dimensions window_strides pads
           ?bd ?wdil)"
    using generic unfolding reduce_window_generic_leaf [OF comp init]
    by (cases "common_reduce_window_shape_rule (shape_of x) window_dimensions
        window_strides pads ?bd ?wdil") auto
  have cases: "reduce_window env (Leaf x) (Leaf init) computation window_dimensions
      window_strides padding base_dilation window_dilation =
    (case spec_fast_path env computation [init] of
       Some f \<Rightarrow>
         map_sum id Leaf
           (call_monoid_reducer env f (Leaf x) window_dimensions window_strides pads ?bd ?wdil)
     | None \<Rightarrow>
         reduce_window_generic (Leaf x) (Leaf init) computation window_dimensions
           window_strides pads ?bd ?wdil)"
    using reduce_window_cases [of "Leaf x" "Leaf init" env window_dimensions window_strides
        padding window_dilation pads computation base_dilation] pads
    by (simp add: tree_structure_def)
  from ident show ?thesis
  proof (elim disjE conjE)
    assume c: "computation = lax_add" "v = const_zero env (dtype_of x)"
      "is_number env (dtype_of x)"
    then have "spec_fast_path env computation [init] = Some fn_reduce_window_sum"
      using init refl by (simp add: spec_fast_path_def)
    then show ?thesis
      using cases rule g c init
      by (simp add: call_monoid_reducer_def reduce_window_sum_def
          reduce_window_sum_shape_rule_def default_dilation_def reduce_window_lower_def
          generic_reduce_window_lower_def callable_body_def full_like_aval_def)
  next
    assume c: "computation = lax_max" "v = get_max_identity env (dtype_of x)"
    then have "spec_fast_path env computation [init] = Some fn_reduce_window_max"
      using init refl by (simp add: spec_fast_path_def)
    then show ?thesis
      using cases rule g c init
      by (simp add: call_monoid_reducer_def reduce_window_max_def default_dilation_def
          reduce_window_lower_def generic_reduce_window_lower_def callable_body_def
          full_like_aval_def)
  next
    assume c: "computation = lax_min" "v = get_min_identity env (dtype_of x)"
    then have "spec_fast_path env computation [init] = Some fn_reduce_window_min"
      using init refl by (simp add: spec_fast_path_def)
    then show ?thesis
      using cases rule g c init
      by (simp add: call_monoid_reducer_def reduce_window_min_def default_dilation_def
          reduce_window_lower_def generic_reduce_window_lower_def callable_body_def
          full_like_aval_def)
  qed
qed

text \<open>
  C3. The fast path compares the init value with the identity by \<open>==\<close>, which holds
  for the negative zero against 0. For the operand \<open>[-0.0, -0.0]\<close>, addition, the init
  value \<open>-0.0\<close>, window size 2 and stride 2, \<open>reduce_window\<close> binds
  \<open>reduce_window_sum_p\<close>, whose lowering starts the sum from the constant 0, while the
  generic primitive starts it from the init value: the two lower to different
  operations, the specialized primitive gives \<open>[0.0]\<close> and the generic one
  \<open>[-0.0]\<close>.
\<close>

theorem fast_path_negative_zero:
  "reduce_window example_env (Leaf example_zeros) (Leaf (example_scalar NegZero))
       lax_add [2] [2] (PaddingSeq [(0, 0)]) None None
     = Inr (Leaf (Tracer float32 [1]
         (reduce_window_sum_p example_zeros [2] [2] [(0, 0)] [1] [1])))
   \<and> reduce_window_generic (Leaf example_zeros) (Leaf (example_scalar NegZero))
       lax_add [2] [2] [(0, 0)] [1] [1]
     = Inr (Leaf (Tracer float32 [1]
         (reduce_window_p 0 [example_zeros] [example_scalar NegZero] lax_add
            [2] [2] [(0, 0)] [1] [1])))
   \<and> lower example_env
         (Tracer float32 [1] (reduce_window_sum_p example_zeros [2] [2] [(0, 0)] [1] [1]))
       \<noteq> lower example_env
         (Tracer float32 [1]
            (reduce_window_p 0 [example_zeros] [example_scalar NegZero] lax_add
               [2] [2] [(0, 0)] [1] [1]))
   \<and> map_option data (evaluate example_env
         (Tracer float32 [1] (reduce_window_sum_p example_zeros [2] [2] [(0, 0)] [1] [1])))
       = Some [Fin 0]
   \<and> map_option data (evaluate example_env
         (Tracer float32 [1]
            (reduce_window_p 0 [example_zeros] [example_scalar NegZero] lax_add
               [2] [2] [(0, 0)] [1] [1])))
       = Some [NegZero]"
proof -
  have fast: "reduce_window example_env (Leaf example_zeros) (Leaf (example_scalar NegZero))
       lax_add [2] [2] (PaddingSeq [(0, 0)]) None None
     = Inr (Leaf (Tracer float32 [1]
         (reduce_window_sum_p example_zeros [2] [2] [(0, 0)] [1] [1])))"
    by (simp add: reduce_window_def tree_structure_def resolve_padding_def
        get_monoid_window_reducer_def and_then_def scalar_eq_def call_monoid_reducer_def
        reduce_window_sum_def reduce_window_sum_shape_rule_def example_zeros_def
        example_defs shape_rule_defs)
  have generic: "reduce_window_generic (Leaf example_zeros) (Leaf (example_scalar NegZero))
       lax_add [2] [2] [(0, 0)] [1] [1]
     = Inr (Leaf (Tracer float32 [1]
         (reduce_window_p 0 [example_zeros] [example_scalar NegZero] lax_add
            [2] [2] [(0, 0)] [1] [1])))"
    by (simp add: reduce_window_generic_def variadic_reduction_jaxpr_def tree_structure_def
        reduce_window_p_bind_def reduce_window_abstract_eval_rule_def tree_unflatten_def
        example_zeros_def example_defs shape_rule_defs)
  have lowered: "lower example_env
         (Tracer float32 [1] (reduce_window_sum_p example_zeros [2] [2] [(0, 0)] [1] [1]))
       \<noteq> lower example_env
         (Tracer float32 [1]
            (reduce_window_p 0 [example_zeros] [example_scalar NegZero] lax_add
               [2] [2] [(0, 0)] [1] [1]))"
    by (simp add: reduce_window_lower_def generic_reduce_window_lower_def full_like_aval_def
        example_zeros_def example_defs)
  have sum: "map_option data (evaluate example_env
         (Tracer float32 [1] (reduce_window_sum_p example_zeros [2] [2] [(0, 0)] [1] [1])))
       = Some [Fin 0]"
    by code_simp
  have gen: "map_option data (evaluate example_env
         (Tracer float32 [1]
            (reduce_window_p 0 [example_zeros] [example_scalar NegZero] lax_add
               [2] [2] [(0, 0)] [1] [1])))
       = Some [NegZero]"
    by code_simp
  show ?thesis
    using fast generic lowered sum gen by (intro conjI)
qed

subsection \<open>Pooling and the routing of tangents\<close>

text \<open>
  C2. For the operand \<open>[1, 5, 2, 4]\<close> with window size 2, stride 2, no padding and
  unit dilations, and the tangents \<open>[10, 20, 30, 40]\<close>: the max-pooling windowed
  reduction gives \<open>[5, 4]\<close>; \<open>select_and_gather_add\<close> with \<open>ge_p\<close> gives
  \<open>[20, 40]\<close>, the tangent at each window's maximum, and with \<open>le_p\<close> it gives
  \<open>[10, 30]\<close>; the forward-mode rule of the max (min) reduction is that
  \<open>select_and_gather_add\<close> with \<open>ge_p\<close> (\<open>le_p\<close>).
\<close>

theorem pooling_tangent_routing:
  "evaluate_result example_env
       (reduce_window_max example_operand [2] [2] [(0, 0)] None None) = Some [Fin 5, Fin 4]
   \<and> evaluate_result example_env
       (select_and_gather_add example_tangents example_operand ge_p [2] [2] [(0, 0)] [1] [1])
     = Some [Fin 20, Fin 40]
   \<and> evaluate_result example_env
       (select_and_gather_add example_tangents example_operand le_p [2] [2] [(0, 0)] [1] [1])
     = Some [Fin 10, Fin 30]
   \<and> reduce_window_chooser_jvp_rule max_p example_tangents example_operand
       [2] [2] [(0, 0)] [1] [1]
     = select_and_gather_add example_tangents example_operand ge_p [2] [2] [(0, 0)] [1] [1]
   \<and> reduce_window_chooser_jvp_rule min_p example_tangents example_operand
       [2] [2] [(0, 0)] [1] [1]
     = select_and_gather_add example_tangents example_operand le_p [2] [2] [(0, 0)] [1] [1]"
proof (intro conjI)
  show "evaluate_result example_env
       (reduce_window_max example_operand [2] [2] [(0, 0)] None None) = Some [Fin 5, Fin 4]"
    by code_simp
  show "evaluate_result example_env
       (select_and_gather_add example_tangents example_operand ge_p [2] [2] [(0, 0)] [1] [1])
     = Some [Fin 20, Fin 40]"
    by code_simp
  show "evaluate_result example_env
       (select_and_gather_add example_tangents example_operand le_p [2] [2] [(0, 0)] [1] [1])
     = Some [Fin 10, Fin 30]"
    by code_simp
qed (simp_all add: reduce_window_chooser_jvp_rule_def)

end
